theory Spec2Isabelle
  imports Complex_Main
begin

section \<open>Role-derived permissions (frontend/src/contexts/AuthContext.js)\<close>

text \<open>
  Roles are JavaScript strings. Each entry of the \<^verbatim>\<open>PERMISSIONS\<close> object is a predicate on
  the role string: \<^verbatim>\<open>[..].includes(role)\<close> is list membership, \<^verbatim>\<open>role === "x"\<close> is equality.
\<close>

definition canManageContent :: "string \<Rightarrow> bool" where
  "canManageContent role = (role \<in> set [''founder'', ''manager''])"

definition canViewAnalytics :: "string \<Rightarrow> bool" where
  "canViewAnalytics role = (role \<in> set [''founder'', ''manager''])"

definition canAccessPitch :: "string \<Rightarrow> bool" where
  "canAccessPitch role = (role = ''founder'')"

definition canManageTeam :: "string \<Rightarrow> bool" where
  "canManageTeam role = (role \<in> set [''founder'', ''manager''])"

definition canViewTeam :: "string \<Rightarrow> bool" where
  "canViewTeam role = (role \<in> set [''founder'', ''manager'', ''member''])"

definition canViewTasks :: "string \<Rightarrow> bool" where
  "canViewTasks role = (role \<in> set [''founder'', ''manager'', ''member''])"

definition canManageStartup :: "string \<Rightarrow> bool" where
  "canManageStartup role = (role = ''founder'')"

definition canViewInvestorFeed :: "string \<Rightarrow> bool" where
  "canViewInvestorFeed role = (role = ''investor'')"

definition canViewMyInvestments :: "string \<Rightarrow> bool" where
  "canViewMyInvestments role = (role = ''investor'')"

definition canManageInvestors :: "string \<Rightarrow> bool" where
  "canManageInvestors role = (role \<in> set [''founder'', ''manager''])"

text \<open>The object built by the \<^verbatim>\<open>permissions\<close> memo of \<^verbatim>\<open>AuthProvider\<close>: one flag per key.\<close>

record permissions =
  p_canManageContent :: bool
  p_canViewAnalytics :: bool
  p_canAccessPitch :: bool
  p_canManageTeam :: bool
  p_canViewTeam :: bool
  p_canViewTasks :: bool
  p_canManageStartup :: bool
  p_canViewInvestorFeed :: bool
  p_canViewMyInvestments :: bool
  p_canManageInvestors :: bool

definition derivePermissions :: "string \<Rightarrow> permissions" where
  "derivePermissions role =
     \<lparr> p_canManageContent = canManageContent role,
       p_canViewAnalytics = canViewAnalytics role,
       p_canAccessPitch = canAccessPitch role,
       p_canManageTeam = canManageTeam role,
       p_canViewTeam = canViewTeam role,
       p_canViewTasks = canViewTasks role,
       p_canManageStartup = canManageStartup role,
       p_canViewInvestorFeed = canViewInvestorFeed role,
       p_canViewMyInvestments = canViewMyInvestments role,
       p_canManageInvestors = canManageInvestors role \<rparr>"

text \<open>
  An entry of the \<^verbatim>\<open>startups\<close> list held by the provider, as far as the provider reads it:
  \<^verbatim>\<open>id\<close>, \<^verbatim>\<open>name\<close> and the optional \<^verbatim>\<open>user_role\<close> (absent, null or a string).
\<close>

record startup_entry =
  se_id :: string
  se_name :: string
  se_user_role :: "string option"

text \<open>
  \<^verbatim>\<open>currentStartup?.user_role || "member"\<close>: optional chaining gives undefined for a null
  \<^verbatim>\<open>currentStartup\<close>; \<^verbatim>\<open>||\<close> replaces every falsy value, the empty string included.
\<close>

definition userRole :: "startup_entry option \<Rightarrow> string" where
  "userRole currentStartup =
     (case currentStartup of
        None \<Rightarrow> ''member''
      | Some s \<Rightarrow>
          (case se_user_role s of
             None \<Rightarrow> ''member''
           | Some r \<Rightarrow> if r = [] then ''member'' else r))"

text \<open>
  The capability table of section 4.2 of the specification, written over the keys of
  \<^verbatim>\<open>PERMISSIONS\<close> that carry each row: settings and billing (and the invite code) on
  \<^verbatim>\<open>canManageStartup\<close>, tasks and milestones on \<^verbatim>\<open>canManageContent\<close>, own task status on
  \<^verbatim>\<open>canViewTasks\<close>, analytics on \<^verbatim>\<open>canViewAnalytics\<close>, pitch generation on
  \<^verbatim>\<open>canAccessPitch\<close>, the roster on \<^verbatim>\<open>canViewTeam\<close>, removing members and changing roles on
  \<^verbatim>\<open>canManageTeam\<close>, browsing on \<^verbatim>\<open>canViewInvestorFeed\<close>, own investment records on
  \<^verbatim>\<open>canViewMyInvestments\<close>, the founder-facing investor portal on \<^verbatim>\<open>canManageInvestors\<close>.
  This definition follows the table, not the code.
\<close>

definition spec_table_4_2 :: "string \<Rightarrow> permissions" where
  "spec_table_4_2 role =
     \<lparr> p_canManageContent = (role = ''founder'' \<or> role = ''manager''),
       p_canViewAnalytics = (role = ''founder'' \<or> role = ''manager''),
       p_canAccessPitch = (role = ''founder''),
       p_canManageTeam = (role = ''founder''),
       p_canViewTeam = (role = ''founder'' \<or> role = ''manager'' \<or> role = ''member''),
       p_canViewTasks = (role = ''founder'' \<or> role = ''manager'' \<or> role = ''member''),
       p_canManageStartup = (role = ''founder''),
       p_canViewInvestorFeed = (role = ''investor''),
       p_canViewMyInvestments = (role = ''investor''),
       p_canManageInvestors = (role = ''founder'') \<rparr>"

section \<open>The persisted store (backend/setup_database.sql)\<close>

text \<open>
  The tables the claims read, with the columns that carry a constraint or are read by an
  operation below. Identifiers are \<^verbatim>\<open>uuid\<close> values, kept as strings as the client holds
  them. Surrogate row ids and the \<^verbatim>\<open>created_at\<close> / \<^verbatim>\<open>joined_at\<close> defaults of
  \<^verbatim>\<open>startup_members\<close>, \<^verbatim>\<open>investor_swipes\<close> and the ledger tables are generated by the
  database and read by nothing here, as are the descriptive columns of \<^verbatim>\<open>startups\<close>.
  A nullable column is an option; \<^verbatim>\<open>not null\<close> is the type.
\<close>

type_synonym uuid = string

record startup_row =
  st_id :: uuid
  st_name :: string
  st_founder_id :: uuid
  st_invite_code :: "string option"

record member_row =
  m_startup_id :: uuid
  m_user_id :: uuid
  m_role :: string

record swipe_row =
  sw_investor_id :: uuid
  sw_startup_id :: uuid
  sw_action :: string

record date =
  d_year :: nat
  d_month :: nat
  d_day :: nat

text \<open>
  A row of \<^verbatim>\<open>income\<close>, \<^verbatim>\<open>expenses\<close> or \<^verbatim>\<open>investments\<close>: \<^verbatim>\<open>amount numeric(10, 2)\<close> is an
  exact decimal, a rational here; \<^verbatim>\<open>date\<close> carries the \<^verbatim>\<open>CURRENT_DATE\<close> default.
\<close>

record ledger_row =
  l_startup_id :: uuid
  l_amount :: rat
  l_date :: date

text \<open>
  Modelled from the spec: the field \<^verbatim>\<open>platform_investors\<close>, which is not a table of the
  schema. It is the platform-level investor designation of a user (sections 3, 4.1 and
  4.2: a user-level flag, independent of any workspace's membership table), whose origin
  the specification leaves open; the field lists the users that carry it. The other
  fields of the store are the tables above. References to \<^verbatim>\<open>auth.users\<close>, a table of the
  identity provider, are not checked.
\<close>

record store =
  startups :: "startup_row list"
  startup_members :: "member_row list"
  investor_swipes :: "swipe_row list"
  income :: "ledger_row list"
  expenses :: "ledger_row list"
  investments :: "ledger_row list"
  platform_investors :: "uuid list"

datatype db_error = UniqueViolation | CheckViolation | ForeignKeyViolation

definition member_key :: "member_row \<Rightarrow> uuid \<times> uuid" where
  "member_key m = (m_startup_id m, m_user_id m)"

definition swipe_key :: "swipe_row \<Rightarrow> uuid \<times> uuid" where
  "swipe_key r = (sw_investor_id r, sw_startup_id r)"

text \<open>
  \<^verbatim>\<open>insert into startups\<close>: the table declares a primary key on \<^verbatim>\<open>id\<close> and nothing on
  \<^verbatim>\<open>invite_code\<close> (the column is \<^verbatim>\<open>invite_code text\<close>, with no \<^verbatim>\<open>unique\<close>).
  \<^verbatim>\<open>founder_id\<close> references \<^verbatim>\<open>auth.users\<close>, a table of the identity provider.
\<close>

definition insert_startup :: "store \<Rightarrow> startup_row \<Rightarrow> db_error + store" where
  "insert_startup s r =
     (if st_id r \<in> set (map st_id (startups s)) then Inl UniqueViolation
      else Inr (s\<lparr>startups := startups s @ [r]\<rparr>))"

text \<open>\<^verbatim>\<open>update startups set invite_code = c where id = w\<close>: no constraint is checked.\<close>

definition update_invite_code :: "store \<Rightarrow> uuid \<Rightarrow> string \<Rightarrow> db_error + store" where
  "update_invite_code s w c =
     Inr (s\<lparr>startups :=
            map (\<lambda>r. if st_id r = w then r\<lparr>st_invite_code := Some c\<rparr> else r) (startups s)\<rparr>)"

text \<open>
  \<^verbatim>\<open>insert into startup_members\<close>: the \<^verbatim>\<open>check\<close> on \<^verbatim>\<open>role\<close>, \<^verbatim>\<open>unique(startup_id, user_id)\<close>
  and the reference to \<^verbatim>\<open>startups\<close>.
\<close>

definition insert_member :: "store \<Rightarrow> member_row \<Rightarrow> db_error + store" where
  "insert_member s m =
     (if m_role m \<notin> set [''founder'', ''manager'', ''member'', ''investor'']
        then Inl CheckViolation
      else if member_key m \<in> set (map member_key (startup_members s))
        then Inl UniqueViolation
      else if m_startup_id m \<notin> set (map st_id (startups s))
        then Inl ForeignKeyViolation
      else Inr (s\<lparr>startup_members := startup_members s @ [m]\<rparr>))"

text \<open>
  The insert-or-update on \<^verbatim>\<open>investor_swipes\<close>
  (\<^verbatim>\<open>insert ... on conflict (investor_id, startup_id) do update set action = ...\<close>):
  the \<^verbatim>\<open>check\<close> on \<^verbatim>\<open>action\<close> and the reference to \<^verbatim>\<open>startups\<close> are enforced; a row with
  the same key is overwritten in place, otherwise the row is added.
\<close>

definition upsert_swipe :: "store \<Rightarrow> swipe_row \<Rightarrow> db_error + store" where
  "upsert_swipe s r =
     (if sw_action r \<notin> set [''interested'', ''passed''] then Inl CheckViolation
      else if sw_startup_id r \<notin> set (map st_id (startups s)) then Inl ForeignKeyViolation
      else if swipe_key r \<in> set (map swipe_key (investor_swipes s))
        then Inr (s\<lparr>investor_swipes :=
                      map (\<lambda>x. if swipe_key x = swipe_key r then x\<lparr>sw_action := sw_action r\<rparr> else x)
                        (investor_swipes s)\<rparr>)
      else Inr (s\<lparr>investor_swipes := investor_swipes s @ [r]\<rparr>))"

text \<open>\<^verbatim>\<open>delete from investor_swipes where investor_id = i and startup_id = w\<close>.\<close>

definition delete_swipe :: "store \<Rightarrow> uuid \<Rightarrow> uuid \<Rightarrow> store" where
  "delete_swipe s i w =
     s\<lparr>investor_swipes := filter (\<lambda>x. swipe_key x \<noteq> (i, w)) (investor_swipes s)\<rparr>"

text \<open>The uniqueness properties the specification states of the persisted layout.\<close>

definition members_unique :: "store \<Rightarrow> bool" where
  "members_unique s = distinct (map member_key (startup_members s))"

definition swipes_unique :: "store \<Rightarrow> bool" where
  "swipes_unique s = distinct (map swipe_key (investor_swipes s))"

definition invite_codes_unique :: "store \<Rightarrow> bool" where
  "invite_codes_unique s = distinct (List.map_filter st_invite_code (startups s))"

text \<open>The two observable states of an (investor, workspace) pair, and the recorded actions.\<close>

definition swipe_rows :: "store \<Rightarrow> uuid \<Rightarrow> uuid \<Rightarrow> swipe_row list" where
  "swipe_rows s i w = filter (\<lambda>x. swipe_key x = (i, w)) (investor_swipes s)"

definition decided :: "store \<Rightarrow> uuid \<Rightarrow> uuid \<Rightarrow> bool" where
  "decided s i w = (swipe_rows s i w \<noteq> [])"

definition unseen :: "store \<Rightarrow> uuid \<Rightarrow> uuid \<Rightarrow> bool" where
  "unseen s i w = (swipe_rows s i w = [])"

definition membership_rows :: "store \<Rightarrow> uuid \<Rightarrow> uuid \<Rightarrow> member_row list" where
  "membership_rows s w u = filter (\<lambda>m. member_key m = (w, u)) (startup_members s)"

section \<open>The backend operations\<close>

text \<open>
  The HTTP handlers of the backend are not among the sources; the client calls them and
  the schema above stores their rows. Each operation below is written from the
  specification's section 4 and runs on the store above.
\<close>

datatype error = ValidationError | ForbiddenError | NotFoundError | ConflictError

text \<open>
  Modelled from the spec: the mapping of a rejected write to the error taxonomy of section 7
  (the backend's handlers are missing): a uniqueness violation is \<^verbatim>\<open>ConflictError\<close>,
  malformed input \<^verbatim>\<open>ValidationError\<close>, an unknown workspace \<^verbatim>\<open>NotFoundError\<close>.
\<close>

fun map_db_error :: "db_error \<Rightarrow> error" where
  "map_db_error UniqueViolation = ConflictError"
| "map_db_error CheckViolation = ValidationError"
| "map_db_error ForeignKeyViolation = NotFoundError"

definition lift_db :: "db_error + store \<Rightarrow> error + store" where
  "lift_db r = (case r of Inl e \<Rightarrow> Inl (map_db_error e) | Inr s \<Rightarrow> Inr s)"

text \<open>The state after a call: a failed call leaves the store as it was.\<close>

definition state_after :: "'s \<Rightarrow> 'e + 's \<Rightarrow> 's" where
  "state_after s r = (case r of Inl e \<Rightarrow> s | Inr s' \<Rightarrow> s')"

text \<open>
  Modelled from the spec: \<^verbatim>\<open>swipe(investorId, workspaceId, action)\<close> of section 4.3, the
  handler of \<^verbatim>\<open>POST /investor/swipe/{workspaceId}\<close>, which is missing from the sources.
  It requires the platform-level investor designation, an existing workspace that is not
  the investor's own, and upserts the row (insert if unseen, overwrite if re-invoked).
  A decided pair is overwritten, as the upsert sentence and the invariant of section 3
  say; of the browsable requirement, existence and ownership are checked, both reported
  as \<^verbatim>\<open>NotFoundError\<close> (an unknown swipe target).
\<close>

definition swipe :: "store \<Rightarrow> uuid \<Rightarrow> uuid \<Rightarrow> string \<Rightarrow> error + store" where
  "swipe s investorId workspaceId action =
     (if investorId \<notin> set (platform_investors s) then Inl ForbiddenError
      else
        (case find (\<lambda>w. st_id w = workspaceId) (startups s) of
           None \<Rightarrow> Inl NotFoundError
         | Some w \<Rightarrow>
             if st_founder_id w = investorId then Inl NotFoundError
             else lift_db (upsert_swipe s
                    \<lparr> sw_investor_id = investorId, sw_startup_id = workspaceId,
                      sw_action = action \<rparr>)))"

text \<open>
  Modelled from the spec: \<^verbatim>\<open>removeMatch(investorId, workspaceId)\<close> of section 4.3, the
  handler of \<^verbatim>\<open>DELETE /investor/matches/{workspaceId}\<close>, which is missing from the sources:
  for an investor it deletes the pair's row, silently when there is none.
\<close>

definition removeMatch :: "store \<Rightarrow> uuid \<Rightarrow> uuid \<Rightarrow> error + store" where
  "removeMatch s investorId workspaceId =
     (if investorId \<notin> set (platform_investors s) then Inl ForbiddenError
      else Inr (delete_swipe s investorId workspaceId))"

text \<open>
  Modelled from the spec: \<^verbatim>\<open>redeemInviteCode(userId, code, role?)\<close> of section 4.1, the
  handler of \<^verbatim>\<open>POST /startups/join\<close>, which is missing from the sources: the workspace is
  looked up by code (\<^verbatim>\<open>NotFoundError\<close>), an existing membership is a \<^verbatim>\<open>ConflictError\<close>,
  the role defaults to \<^verbatim>\<open>member\<close>, \<^verbatim>\<open>investor\<close> needs the platform-level flag, and the row
  is inserted under the table's constraints.
\<close>

definition requested_role :: "string option \<Rightarrow> string" where
  "requested_role role = (case role of None \<Rightarrow> ''member'' | Some x \<Rightarrow> x)"

definition redeemInviteCode :: "store \<Rightarrow> uuid \<Rightarrow> string \<Rightarrow> string option \<Rightarrow> error + store" where
  "redeemInviteCode s userId code role =
     (case find (\<lambda>w. st_invite_code w = Some code) (startups s) of
        None \<Rightarrow> Inl NotFoundError
      | Some w \<Rightarrow>
          if (st_id w, userId) \<in> set (map member_key (startup_members s))
            then Inl ConflictError
          else if requested_role role = ''investor'' \<and> userId \<notin> set (platform_investors s)
            then Inl ForbiddenError
          else lift_db (insert_member s
                 \<lparr> m_startup_id = st_id w, m_user_id = userId,
                   m_role = requested_role role \<rparr>))"

text \<open>
  Modelled from the spec: \<^verbatim>\<open>computeSnapshot(workspaceId)\<close> of section 4.4, which is missing
  from the sources (the client only displays \<^verbatim>\<open>total_raised\<close>, \<^verbatim>\<open>balance\<close> and
  \<^verbatim>\<open>team_size\<close>). The monthly burn is the workspace's expense total divided by the number
  of calendar months present in its expense rows, 0 when there are none; the runway is
  \<^verbatim>\<open>balance / monthlyBurn\<close> when the burn is positive and the sentinel \<^verbatim>\<open>None\<close> otherwise.
  The milestone completion ratio belongs to the execution-tracking component and is not
  modelled.
\<close>

record snapshot =
  totalRaised :: rat
  balance :: rat
  monthlyBurn :: rat
  runwayMonths :: "rat option"
  teamSize :: nat

definition ledger_total :: "ledger_row list \<Rightarrow> uuid \<Rightarrow> rat" where
  "ledger_total rows w = sum_list (map l_amount (filter (\<lambda>r. l_startup_id r = w) rows))"

definition expense_months :: "store \<Rightarrow> uuid \<Rightarrow> (nat \<times> nat) list" where
  "expense_months s w =
     remdups (map (\<lambda>r. (d_year (l_date r), d_month (l_date r)))
               (filter (\<lambda>r. l_startup_id r = w) (expenses s)))"

definition computeSnapshot :: "store \<Rightarrow> uuid \<Rightarrow> snapshot" where
  "computeSnapshot s w =
     (let raised = ledger_total (investments s) w;
          bal = ledger_total (income s) w + raised - ledger_total (expenses s) w;
          months = expense_months s w;
          burn = (if months = [] then 0
                  else ledger_total (expenses s) w / of_nat (length months))
      in \<lparr> totalRaised = raised,
           balance = bal,
           monthlyBurn = burn,
           runwayMonths = (if burn > 0 then Some (bal / burn) else None),
           teamSize = length (filter (\<lambda>m. m_startup_id m = w \<and> m_role m \<noteq> ''investor'')
                                (startup_members s)) \<rparr>)"

section \<open>The investor feed page (frontend/src/pages/InvestorFeedPage.js)\<close>

text \<open>
  A startup object as \<^verbatim>\<open>/investor/browse\<close> and \<^verbatim>\<open>/investor/matches\<close> return it and as the
  handlers read it: \<^verbatim>\<open>id\<close>, \<^verbatim>\<open>name\<close>, and the \<^verbatim>\<open>swiped_at\<close> stamp a match carries. The
  component state is \<^verbatim>\<open>browsableStartups\<close>, \<^verbatim>\<open>currentIndex\<close> (a JavaScript number, an
  integer here) and \<^verbatim>\<open>matches\<close>.
\<close>

record card =
  c_id :: uuid
  c_name :: string
  c_swiped_at :: "string option"

record feed =
  browsableStartups :: "card list"
  currentIndex :: int
  matches :: "card list"

text \<open>\<^verbatim>\<open>xs[i]\<close>: the element, or undefined outside the array.\<close>

definition js_index :: "'a list \<Rightarrow> int \<Rightarrow> 'a option" where
  "js_index xs i = (if 0 \<le> i \<and> i < int (length xs) then Some (xs ! nat i) else None)"

text \<open>
  The handlers run against a server. A request is a function from the server's state to a
  rejection (\<^verbatim>\<open>await\<close> throws) or the server's next state; the endpoint is a parameter, the
  session's bearer token being part of it. \<^verbatim>\<open>now\<close> is \<^verbatim>\<open>new Date().toISOString()\<close>.
  Toasts are display only.
\<close>

text \<open>
  \<^verbatim>\<open>handleSwipe\<close> is an async function, and its two halves run at different moments.
  Up to the \<^verbatim>\<open>await\<close> it reads \<^verbatim>\<open>startup = browsableStartups[currentIndex]\<close> from the state
  of the render whose closure it is, returns when there is none, and sends the POST for
  \<^verbatim>\<open>startup.id\<close> and \<^verbatim>\<open>action\<close>. What the call holds while the request is pending is that
  \<^verbatim>\<open>startup\<close> and the \<^verbatim>\<open>action\<close>.
\<close>

record swipe_call =
  sc_startup :: card
  sc_action :: string

definition handleSwipe_begin :: "string \<Rightarrow> feed \<Rightarrow> swipe_call option" where
  "handleSwipe_begin action rendered =
     (case js_index (browsableStartups rendered) (currentIndex rendered) of
        None \<Rightarrow> None
      | Some startup \<Rightarrow> Some \<lparr> sc_startup = startup, sc_action = action \<rparr>)"

text \<open>
  After the \<^verbatim>\<open>await\<close>, when the request has succeeded, the functional updates
  \<^verbatim>\<open>setMatches(prev => [{...startup, swiped_at}, ...prev])\<close> (for \<^verbatim>\<open>interested\<close>) and
  \<^verbatim>\<open>setCurrentIndex(prev => prev + 1)\<close> apply to the state the page has at that moment,
  with the \<^verbatim>\<open>startup\<close> the call read at its start.
\<close>

definition handleSwipe_resolved :: "string \<Rightarrow> swipe_call \<Rightarrow> feed \<Rightarrow> feed" where
  "handleSwipe_resolved now c fd =
     fd\<lparr> matches :=
           (if sc_action c = ''interested''
            then (sc_startup c)\<lparr>c_swiped_at := Some now\<rparr> # matches fd
            else matches fd),
         currentIndex := currentIndex fd + 1 \<rparr>"

text \<open>The \<^verbatim>\<open>catch\<close> branch of a rejected request: a toast, no update.\<close>

definition handleSwipe_rejected :: "swipe_call \<Rightarrow> feed \<Rightarrow> feed" where
  "handleSwipe_rejected c fd = fd"

text \<open>
  The page with its server and the calls of \<^verbatim>\<open>handleSwipe\<close> whose request is pending. The
  swipe buttons stay enabled while a request is pending, so a click can start a call
  before an earlier one is answered. A click runs the first half on the state rendered,
  which is the page's state at the click. An answer takes one pending call, in any order:
  the server handles its request and the second half runs on the state of that moment.
\<close>

record 'srv world =
  w_server :: 'srv
  w_page :: feed
  w_pending :: "swipe_call list"

datatype event = SwipeClick string | SwipeAnswer nat string

fun step ::
  "(uuid \<Rightarrow> string \<Rightarrow> 'srv \<Rightarrow> 'e + 'srv) \<Rightarrow> event \<Rightarrow> 'srv world \<Rightarrow> 'srv world"
where
  "step post (SwipeClick action) w =
     (case handleSwipe_begin action (w_page w) of
        None \<Rightarrow> w
      | Some c \<Rightarrow> w\<lparr> w_pending := w_pending w @ [c] \<rparr>)"
| "step post (SwipeAnswer k now) w =
     (if k < length (w_pending w) then
        (let c = w_pending w ! k;
             others = take k (w_pending w) @ drop (Suc k) (w_pending w)
         in case post (c_id (sc_startup c)) (sc_action c) (w_server w) of
              Inl e \<Rightarrow>
                w\<lparr> w_page := handleSwipe_rejected c (w_page w), w_pending := others \<rparr>
            | Inr srv' \<Rightarrow>
                w\<lparr> w_server := srv', w_page := handleSwipe_resolved now c (w_page w),
                   w_pending := others \<rparr>)
      else w)"

fun run_events ::
  "(uuid \<Rightarrow> string \<Rightarrow> 'srv \<Rightarrow> 'e + 'srv) \<Rightarrow> event list \<Rightarrow> 'srv world \<Rightarrow> 'srv world"
where
  "run_events post [] w = w"
| "run_events post (ev # evs) w = run_events post evs (step post ev w)"

fun handleRemoveMatch ::
  "(uuid \<Rightarrow> 'srv \<Rightarrow> 'e + 'srv) \<Rightarrow> uuid \<Rightarrow> 'srv \<times> feed \<Rightarrow> 'srv \<times> feed"
where
  "handleRemoveMatch delete startupId (srv, fd) =
     (case delete startupId srv of
        Inl e \<Rightarrow> (srv, fd)
      | Inr srv' \<Rightarrow> (srv', fd\<lparr> matches := filter (\<lambda>m. c_id m \<noteq> startupId) (matches fd) \<rparr>))"

text \<open>\<^verbatim>\<open>handleUndoSwipe\<close> sends no request: the server's state passes through.\<close>

fun handleUndoSwipe :: "'srv \<times> feed \<Rightarrow> 'srv \<times> feed" where
  "handleUndoSwipe (srv, fd) =
     (if currentIndex fd = 0 then (srv, fd)
      else (srv, fd\<lparr> currentIndex := currentIndex fd - 1 \<rparr>))"

text \<open>
  The two requests of the page that write, for the investor of the session:
  \<^verbatim>\<open>axios.post(`${API}/investor/swipe/${startup.id}`, { action })\<close> and
  \<^verbatim>\<open>axios.delete(`${API}/investor/matches/${startupId}`)\<close>, answered by the backend
  operations above.
\<close>

definition post_swipe :: "uuid \<Rightarrow> uuid \<Rightarrow> string \<Rightarrow> store \<Rightarrow> error + store" where
  "post_swipe investorId startupId action s = swipe s investorId startupId action"

definition delete_match :: "uuid \<Rightarrow> uuid \<Rightarrow> store \<Rightarrow> error + store" where
  "delete_match investorId startupId s = removeMatch s investorId startupId"

section \<open>Sequences of calls on one store\<close>

text \<open>
  A call is a swipe request, the page's undo (with the page state it runs on) or a
  remove-match request.
\<close>

datatype call = Swipe uuid uuid string | Undo feed | RemoveMatch uuid uuid

fun apply_call :: "store \<Rightarrow> call \<Rightarrow> store" where
  "apply_call s (Swipe i w a) = state_after s (swipe s i w a)"
| "apply_call s (Undo fd) = fst (handleUndoSwipe (s, fd))"
| "apply_call s (RemoveMatch i w) = state_after s (removeMatch s i w)"

fun run :: "store \<Rightarrow> call list \<Rightarrow> store" where
  "run s [] = s"
| "run s (c # cs) = run (apply_call s c) cs"

text \<open>
  The decision that stands for the pair \<open>(i, w)\<close> after a call: the argument of a swipe on
  the pair that succeeded, nothing after a remove-match on the pair that succeeded, and
  what stood before otherwise.
\<close>

fun decision_after :: "store \<Rightarrow> uuid \<Rightarrow> uuid \<Rightarrow> string option \<Rightarrow> call \<Rightarrow> string option" where
  "decision_after s i w cur (Swipe i' w' a) =
     (if i' = i \<and> w' = w \<and> \<not> isl (swipe s i' w' a) then Some a else cur)"
| "decision_after s i w cur (Undo fd) = cur"
| "decision_after s i w cur (RemoveMatch i' w') =
     (if i' = i \<and> w' = w \<and> \<not> isl (removeMatch s i' w') then None else cur)"

fun latest :: "store \<Rightarrow> uuid \<Rightarrow> uuid \<Rightarrow> string option \<Rightarrow> call list \<Rightarrow> string option" where
  "latest s i w cur [] = cur"
| "latest s i w cur (c # cs) = latest (apply_call s c) i w (decision_after s i w cur c) cs"

definition recorded :: "store \<Rightarrow> uuid \<Rightarrow> uuid \<Rightarrow> string list" where
  "recorded s i w = map sw_action (swipe_rows s i w)"

definition standing :: "store \<Rightarrow> uuid \<Rightarrow> uuid \<Rightarrow> string option" where
  "standing s i w = (case recorded s i w of [] \<Rightarrow> None | a # rest \<Rightarrow> Some a)"

section \<open>A small populated store\<close>

definition demo_store :: store where
  "demo_store =
     \<lparr> startups =
         [\<lparr> st_id = ''ws1'', st_name = ''Acme'', st_founder_id = ''u1'',
            st_invite_code = Some ''ABC12345'' \<rparr>,
          \<lparr> st_id = ''ws2'', st_name = ''Beta'', st_founder_id = ''u2'',
            st_invite_code = Some ''XYZ98765'' \<rparr>],
       startup_members =
         [\<lparr> m_startup_id = ''ws1'', m_user_id = ''u1'', m_role = ''founder'' \<rparr>,
          \<lparr> m_startup_id = ''ws1'', m_user_id = ''u3'', m_role = ''manager'' \<rparr>,
          \<lparr> m_startup_id = ''ws1'', m_user_id = ''u4'', m_role = ''member'' \<rparr>,
          \<lparr> m_startup_id = ''ws1'', m_user_id = ''inv1'', m_role = ''investor'' \<rparr>,
          \<lparr> m_startup_id = ''ws2'', m_user_id = ''u2'', m_role = ''founder'' \<rparr>],
       investor_swipes = [],
       income =
         [\<lparr> l_startup_id = ''ws1'', l_amount = 100,
            l_date = \<lparr> d_year = 2026, d_month = 1, d_day = 5 \<rparr> \<rparr>,
          \<lparr> l_startup_id = ''ws1'', l_amount = 50,
            l_date = \<lparr> d_year = 2026, d_month = 2, d_day = 9 \<rparr> \<rparr>,
          \<lparr> l_startup_id = ''ws2'', l_amount = 7,
            l_date = \<lparr> d_year = 2026, d_month = 2, d_day = 9 \<rparr> \<rparr>],
       expenses =
         [\<lparr> l_startup_id = ''ws1'', l_amount = 30,
            l_date = \<lparr> d_year = 2026, d_month = 1, d_day = 20 \<rparr> \<rparr>,
          \<lparr> l_startup_id = ''ws1'', l_amount = 20,
            l_date = \<lparr> d_year = 2026, d_month = 2, d_day = 20 \<rparr> \<rparr>],
       investments =
         [\<lparr> l_startup_id = ''ws1'', l_amount = 500,
            l_date = \<lparr> d_year = 2026, d_month = 1, d_day = 2 \<rparr> \<rparr>],
       platform_investors = [''inv1''] \<rparr>"

definition demo_decided :: store where
  "demo_decided =
     demo_store\<lparr> investor_swipes :=
       [\<lparr> sw_investor_id = ''inv1'', sw_startup_id = ''ws1'', sw_action = ''interested'' \<rparr>] \<rparr>"

definition demo_cards :: "card list" where
  "demo_cards =
     [\<lparr> c_id = ''ws1'', c_name = ''Acme'', c_swiped_at = None \<rparr>,
      \<lparr> c_id = ''ws2'', c_name = ''Beta'', c_swiped_at = None \<rparr>]"

definition demo_feed :: feed where
  "demo_feed = \<lparr> browsableStartups = demo_cards, currentIndex = 0, matches = [] \<rparr>"

text \<open>The page after the investor has swiped right on the first card.\<close>

definition demo_feed_swiped :: feed where
  "demo_feed_swiped =
     \<lparr> browsableStartups = demo_cards, currentIndex = 1,
       matches = [\<lparr> c_id = ''ws1'', c_name = ''Acme'', c_swiped_at = Some ''2026-03-01T10:00:00Z'' \<rparr>] \<rparr>"

text \<open>The call that a right swipe on the first card leaves pending.\<close>

definition demo_call :: swipe_call where
  "demo_call =
     \<lparr> sc_startup = \<lparr> c_id = ''ws1'', c_name = ''Acme'', c_swiped_at = None \<rparr>,
       sc_action = ''interested'' \<rparr>"

text \<open>The same store with the two expenses in January of two different years.\<close>

definition demo_store_years :: store where
  "demo_store_years =
     demo_store\<lparr> expenses :=
       [\<lparr> l_startup_id = ''ws1'', l_amount = 30,
          l_date = \<lparr> d_year = 2025, d_month = 1, d_day = 20 \<rparr> \<rparr>,
        \<lparr> l_startup_id = ''ws1'', l_amount = 20,
          l_date = \<lparr> d_year = 2026, d_month = 1, d_day = 20 \<rparr> \<rparr>] \<rparr>"

lemmas PERMISSIONS_defs =
  canManageContent_def canViewAnalytics_def canAccessPitch_def canManageTeam_def
  canViewTeam_def canViewTasks_def canManageStartup_def canViewInvestorFeed_def
  canViewMyInvestments_def canManageInvestors_def

section \<open>Permissions: results\<close>

lemma derivePermissions_table_except_manager:
  "role \<noteq> ''manager'' \<Longrightarrow> derivePermissions role = spec_table_4_2 role"
  by (auto simp: derivePermissions_def spec_table_4_2_def PERMISSIONS_defs)

text \<open>
  Claim C1. Section 4.2 grants removing members / changing roles and the founder-facing
  investor portal to the founder alone. At the role \<^verbatim>\<open>manager\<close> the code grants both
  \<^verbatim>\<open>canManageTeam\<close> and \<^verbatim>\<open>canManageInvestors\<close>, so the derived capability set differs from the
  table; at the other three roles the two agree.
\<close>

theorem C1_manager_diverges_from_table:
  "canManageTeam ''manager'' \<and> canManageInvestors ''manager''
   \<and> \<not> p_canManageTeam (spec_table_4_2 ''manager'')
   \<and> \<not> p_canManageInvestors (spec_table_4_2 ''manager'')
   \<and> derivePermissions ''manager'' \<noteq> spec_table_4_2 ''manager''
   \<and> derivePermissions ''founder'' = spec_table_4_2 ''founder''
   \<and> derivePermissions ''member'' = spec_table_4_2 ''member''
   \<and> derivePermissions ''investor'' = spec_table_4_2 ''investor''"
  by (simp add: derivePermissions_def spec_table_4_2_def PERMISSIONS_defs)

text \<open>
  Claim C8. With no workspace selected, or a selected workspace without a (non-empty)
  \<^verbatim>\<open>user_role\<close>, the derived role is \<^verbatim>\<open>member\<close> and the permissions are the member's:
  \<^verbatim>\<open>canViewTeam\<close> and \<^verbatim>\<open>canViewTasks\<close> only.
\<close>

theorem C8_no_workspace_defaults_to_member:
  assumes "currentStartup = None
           \<or> (\<exists>s. currentStartup = Some s \<and> (se_user_role s = None \<or> se_user_role s = Some []))"
  shows "userRole currentStartup = ''member''
         \<and> derivePermissions (userRole currentStartup) =
             \<lparr> p_canManageContent = False, p_canViewAnalytics = False,
               p_canAccessPitch = False, p_canManageTeam = False,
               p_canViewTeam = True, p_canViewTasks = True,
               p_canManageStartup = False, p_canViewInvestorFeed = False,
               p_canViewMyInvestments = False, p_canManageInvestors = False \<rparr>"
proof -
  from assms have r: "userRole currentStartup = ''member''"
    by (auto simp: userRole_def)
  show ?thesis
    unfolding r by (simp add: derivePermissions_def PERMISSIONS_defs)
qed

theorem C8_witness:
  "userRole None = ''member''
   \<and> p_canViewTasks (derivePermissions (userRole None))
   \<and> \<not> p_canManageStartup (derivePermissions (userRole None))
   \<and> userRole (Some \<lparr> se_id = ''s1'', se_name = ''Acme'', se_user_role = None \<rparr>) = ''member''"
  using C8_no_workspace_defaults_to_member [of None]
    C8_no_workspace_defaults_to_member
      [of "Some \<lparr> se_id = ''s1'', se_name = ''Acme'', se_user_role = None \<rparr>"]
  by (simp add: derivePermissions_def PERMISSIONS_defs)

text \<open>
  Claim C10. A role string outside founder, manager, member and investor (the empty string
  included) satisfies no predicate of \<^verbatim>\<open>PERMISSIONS\<close>: the derived capability set is empty.
\<close>

theorem C10_unknown_role_gets_nothing:
  assumes "role \<notin> {''founder'', ''manager'', ''member'', ''investor''}"
  shows "\<not> canManageContent role \<and> \<not> canViewAnalytics role \<and> \<not> canAccessPitch role
         \<and> \<not> canManageTeam role \<and> \<not> canViewTeam role \<and> \<not> canViewTasks role
         \<and> \<not> canManageStartup role \<and> \<not> canViewInvestorFeed role
         \<and> \<not> canViewMyInvestments role \<and> \<not> canManageInvestors role"
  using assms by (simp add: PERMISSIONS_defs)

theorem C10_witness:
  "\<not> canViewTasks '''' \<and> \<not> canViewTeam '''' \<and> \<not> canManageInvestors ''admin''
   \<and> \<not> canManageStartup ''Founder''"
  using C10_unknown_role_gets_nothing [of "''''"] C10_unknown_role_gets_nothing [of "''admin''"]
    C10_unknown_role_gets_nothing [of "''Founder''"]
  by simp

section \<open>The investor feed page: results\<close>

lemma demo_current_card:
  "js_index (browsableStartups demo_feed) (currentIndex demo_feed)
     = Some \<lparr> c_id = ''ws1'', c_name = ''Acme'', c_swiped_at = None \<rparr>"
  by (simp add: js_index_def demo_feed_def demo_cards_def)

lemma demo_swipe_accepted:
  "post_swipe ''inv1'' ''ws1'' ''interested'' demo_store = Inr demo_decided"
  by (simp add: post_swipe_def swipe_def demo_store_def demo_decided_def upsert_swipe_def
      lift_db_def swipe_key_def)

lemma demo_swipe_rejected:
  "post_swipe ''u3'' ''ws1'' ''interested'' demo_store = Inl ForbiddenError"
  by (simp add: post_swipe_def swipe_def demo_store_def)

text \<open>The populated page and store after a right swipe are the ones named above.\<close>

lemma demo_swipe_right:
  "run_events (post_swipe ''inv1'')
     [SwipeClick ''interested'', SwipeAnswer 0 ''2026-03-01T10:00:00Z'']
     \<lparr> w_server = demo_store, w_page = demo_feed, w_pending = [] \<rparr>
   = \<lparr> w_server = demo_decided, w_page = demo_feed_swiped, w_pending = [] \<rparr>"
  by (simp add: handleSwipe_begin_def demo_current_card demo_swipe_accepted
      handleSwipe_resolved_def)
     (simp add: demo_feed_def demo_feed_swiped_def)

text \<open>
  Two clicks before the first request is answered: both calls read the first card, the
  request for it is sent twice, and after both answers the index is 2 and the matches
  hold the first card twice.
\<close>

lemma demo_double_click:
  "w_pending (run_events (post_swipe ''inv1'')
       [SwipeClick ''interested'', SwipeClick ''interested'']
       \<lparr> w_server = demo_store, w_page = demo_feed, w_pending = [] \<rparr>)
     = [demo_call, demo_call]
   \<and> w_page (run_events (post_swipe ''inv1'')
       [SwipeClick ''interested'', SwipeClick ''interested'',
        SwipeAnswer 0 ''2026-03-01T10:00:00Z'', SwipeAnswer 0 ''2026-03-01T10:00:01Z'']
       \<lparr> w_server = demo_store, w_page = demo_feed, w_pending = [] \<rparr>)
     = \<lparr> browsableStartups = demo_cards, currentIndex = 2,
         matches =
           [\<lparr> c_id = ''ws1'', c_name = ''Acme'', c_swiped_at = Some ''2026-03-01T10:00:01Z'' \<rparr>,
            \<lparr> c_id = ''ws1'', c_name = ''Acme'', c_swiped_at = Some ''2026-03-01T10:00:00Z'' \<rparr>] \<rparr>"
  by (simp add: handleSwipe_begin_def handleSwipe_resolved_def js_index_def demo_call_def
      demo_feed_def demo_cards_def post_swipe_def swipe_def upsert_swipe_def lift_db_def
      swipe_key_def demo_store_def)

text \<open>
  Claim C9. A call of \<^verbatim>\<open>handleSwipe\<close> changes the page only when it is answered, and then
  in one piece. The click leaves the page and the server as they are; on a page that
  shows a card it leaves the call pending with that card. When a pending call's request is
  rejected, the page state (and the server) is as before the answer; when it succeeds, the
  index grows by one, the cards are as before, and the matches gain the card the call
  swiped, stamped, exactly when the action is \<^verbatim>\<open>interested\<close>. This holds with other calls
  pending.
\<close>

theorem C9_handleSwipe_atomic:
  "w_page (step post (SwipeClick action) w) = w_page w
   \<and> w_server (step post (SwipeClick action) w) = w_server w
   \<and> (js_index (browsableStartups (w_page w)) (currentIndex (w_page w)) = None \<longrightarrow>
        step post (SwipeClick action) w = w)
   \<and> (js_index (browsableStartups (w_page w)) (currentIndex (w_page w)) = Some startup \<longrightarrow>
        w_pending (step post (SwipeClick action) w)
          = w_pending w @ [\<lparr> sc_startup = startup, sc_action = action \<rparr>])
   \<and> (k < length (w_pending w) \<longrightarrow>
        (post (c_id (sc_startup (w_pending w ! k))) (sc_action (w_pending w ! k)) (w_server w)
           = Inl e \<longrightarrow>
           w_page (step post (SwipeAnswer k now) w) = w_page w
         \<and> w_server (step post (SwipeAnswer k now) w) = w_server w)
      \<and> (post (c_id (sc_startup (w_pending w ! k))) (sc_action (w_pending w ! k)) (w_server w)
           = Inr srv' \<longrightarrow>
           w_server (step post (SwipeAnswer k now) w) = srv'
         \<and> currentIndex (w_page (step post (SwipeAnswer k now) w))
             = currentIndex (w_page w) + 1
         \<and> browsableStartups (w_page (step post (SwipeAnswer k now) w))
             = browsableStartups (w_page w)
         \<and> (sc_action (w_pending w ! k) = ''interested'' \<longrightarrow>
               matches (w_page (step post (SwipeAnswer k now) w))
                 = (sc_startup (w_pending w ! k))\<lparr>c_swiped_at := Some now\<rparr>
                     # matches (w_page w))
         \<and> (sc_action (w_pending w ! k) \<noteq> ''interested'' \<longrightarrow>
               matches (w_page (step post (SwipeAnswer k now) w)) = matches (w_page w))))"
  by (auto simp: handleSwipe_begin_def handleSwipe_resolved_def handleSwipe_rejected_def
      Let_def split: option.splits)

theorem C9_witness:
  "w_page (step (post_swipe ''u3'') (SwipeAnswer 0 ''2026-03-01T10:00:00Z'')
       \<lparr> w_server = demo_store, w_page = demo_feed, w_pending = [demo_call, demo_call] \<rparr>)
     = demo_feed
   \<and> currentIndex (w_page (step (post_swipe ''inv1'') (SwipeAnswer 0 ''2026-03-01T10:00:00Z'')
       \<lparr> w_server = demo_store, w_page = demo_feed, w_pending = [demo_call, demo_call] \<rparr>)) = 1
   \<and> matches (w_page (step (post_swipe ''inv1'') (SwipeAnswer 0 ''2026-03-01T10:00:00Z'')
       \<lparr> w_server = demo_store, w_page = demo_feed, w_pending = [demo_call, demo_call] \<rparr>))
       = [\<lparr> c_id = ''ws1'', c_name = ''Acme'', c_swiped_at = Some ''2026-03-01T10:00:00Z'' \<rparr>]
   \<and> w_pending (step (post_swipe ''inv1'') (SwipeClick ''interested'')
       \<lparr> w_server = demo_store, w_page = demo_feed, w_pending = [demo_call] \<rparr>)
       = [demo_call, demo_call]"
  using
    C9_handleSwipe_atomic [where post = "post_swipe ''u3''" and k = 0 and e = ForbiddenError
      and now = "''2026-03-01T10:00:00Z''"
      and w = "\<lparr> w_server = demo_store, w_page = demo_feed,
                 w_pending = [demo_call, demo_call] \<rparr>"]
    C9_handleSwipe_atomic [where post = "post_swipe ''inv1''" and k = 0 and srv' = demo_decided
      and now = "''2026-03-01T10:00:00Z''" and action = "''interested''"
      and startup = "\<lparr> c_id = ''ws1'', c_name = ''Acme'', c_swiped_at = None \<rparr>"
      and w = "\<lparr> w_server = demo_store, w_page = demo_feed,
                 w_pending = [demo_call, demo_call] \<rparr>"]
    C9_handleSwipe_atomic [where post = "post_swipe ''inv1''" and action = "''interested''"
      and startup = "\<lparr> c_id = ''ws1'', c_name = ''Acme'', c_swiped_at = None \<rparr>"
      and w = "\<lparr> w_server = demo_store, w_page = demo_feed, w_pending = [demo_call] \<rparr>"]
    demo_current_card demo_swipe_accepted demo_swipe_rejected
  by (simp add: demo_call_def demo_feed_def)

text \<open>
  Claim C2, as stated: undo on a decided pair deletes the row. \<^verbatim>\<open>handleUndoSwipe\<close> sends no
  request; after it the pair of the swiped card is still decided.
\<close>

theorem C2_counterexample:
  "decided demo_decided ''inv1'' ''ws1''
   \<and> \<not> unseen (fst (handleUndoSwipe (demo_decided, demo_feed_swiped))) ''inv1'' ''ws1''"
  by (simp add: decided_def unseen_def swipe_rows_def swipe_key_def demo_decided_def
      demo_feed_swiped_def)

text \<open>
  Claim C2, amended: \<^verbatim>\<open>handleUndoSwipe\<close> leaves the store as it is, so a decided pair stays
  decided and an unseen pair unseen; on the page it steps the index back by one, and does
  nothing at index 0; matches and cards are untouched.
\<close>

theorem C2_undo_leaves_swipes:
  "fst (handleUndoSwipe (s, fd)) = s
   \<and> decided (fst (handleUndoSwipe (s, fd))) i w = decided s i w
   \<and> unseen (fst (handleUndoSwipe (s, fd))) i w = unseen s i w
   \<and> matches (snd (handleUndoSwipe (s, fd))) = matches fd
   \<and> browsableStartups (snd (handleUndoSwipe (s, fd))) = browsableStartups fd
   \<and> currentIndex (snd (handleUndoSwipe (s, fd)))
       = (if currentIndex fd = 0 then 0 else currentIndex fd - 1)"
  by simp

theorem C2_witness:
  "fst (handleUndoSwipe (demo_decided, demo_feed_swiped)) = demo_decided
   \<and> currentIndex (snd (handleUndoSwipe (demo_decided, demo_feed_swiped))) = 0
   \<and> currentIndex (snd (handleUndoSwipe (demo_store, demo_feed))) = 0"
  using C2_undo_leaves_swipes [of demo_decided demo_feed_swiped]
    C2_undo_leaves_swipes [of demo_store demo_feed]
  by (simp add: demo_feed_swiped_def demo_feed_def)

text \<open>
  Claim C7, as stated: remove-match and undo leave the swipe relation in the same state.
  From the state after a right swipe, \<^verbatim>\<open>handleRemoveMatch\<close> deletes the row and
  \<^verbatim>\<open>handleUndoSwipe\<close> keeps it.
\<close>

theorem C7_counterexample:
  "investor_swipes (fst (handleRemoveMatch (delete_match ''inv1'') ''ws1''
       (demo_decided, demo_feed_swiped)))
     \<noteq> investor_swipes (fst (handleUndoSwipe (demo_decided, demo_feed_swiped)))"
  by (simp add: delete_match_def removeMatch_def delete_swipe_def demo_decided_def
      demo_store_def swipe_key_def)

text \<open>
  Claim C7, amended: \<^verbatim>\<open>handleUndoSwipe\<close> leaves the swipe relation as it is, and
  \<^verbatim>\<open>handleRemoveMatch\<close>, for an investor, leaves the pair unseen and drops the startup from
  the page's matches; the two leave the same swipe relation exactly when the pair was
  unseen or the delete request is rejected.
\<close>

theorem C7_remove_vs_undo:
  "(investor_swipes (fst (handleRemoveMatch (delete_match investorId) startupId (s, fd)))
      = investor_swipes (fst (handleUndoSwipe (s, fd))))
     = (investorId \<notin> set (platform_investors s) \<or> unseen s investorId startupId)
   \<and> investor_swipes (fst (handleUndoSwipe (s, fd))) = investor_swipes s
   \<and> (investorId \<in> set (platform_investors s) \<longrightarrow>
        unseen (fst (handleRemoveMatch (delete_match investorId) startupId (s, fd)))
          investorId startupId
      \<and> matches (snd (handleRemoveMatch (delete_match investorId) startupId (s, fd)))
          = filter (\<lambda>m. c_id m \<noteq> startupId) (matches fd))"
  by (auto simp: delete_match_def removeMatch_def delete_swipe_def unseen_def swipe_rows_def
      filter_id_conv filter_empty_conv)

theorem C7_witness:
  "unseen demo_store ''inv1'' ''ws1''
   \<and> investor_swipes (fst (handleRemoveMatch (delete_match ''inv1'') ''ws1''
        (demo_store, demo_feed)))
       = investor_swipes (fst (handleUndoSwipe (demo_store, demo_feed)))
   \<and> unseen (fst (handleRemoveMatch (delete_match ''inv1'') ''ws1''
        (demo_decided, demo_feed_swiped))) ''inv1'' ''ws1''
   \<and> matches (snd (handleRemoveMatch (delete_match ''inv1'') ''ws1''
        (demo_decided, demo_feed_swiped))) = []"
  using C7_remove_vs_undo [of "''inv1''" "''ws1''" demo_store demo_feed]
    C7_remove_vs_undo [of "''inv1''" "''ws1''" demo_decided demo_feed_swiped]
  by (simp add: unseen_def swipe_rows_def demo_store_def demo_decided_def demo_feed_swiped_def)

section \<open>Swipe rows under sequences of calls\<close>

lemma single_row_for_key:
  "distinct (map f xs) \<Longrightarrow> k \<in> set (map f xs) \<Longrightarrow> \<exists>x. filter (\<lambda>r. f r = k) xs = [x]"
proof (induction xs)
  case Nil
  then show ?case by simp
next
  case (Cons a xs)
  show ?case
  proof (cases "f a = k")
    case True
    with Cons.prems have "k \<notin> f ` set xs" by auto
    then have "filter (\<lambda>r. f r = k) xs = []" by (auto simp: filter_empty_conv)
    with True show ?thesis by simp
  next
    case False
    with Cons show ?thesis by auto
  qed
qed

lemma no_row_for_key:
  "k \<notin> set (map f xs) \<Longrightarrow> filter (\<lambda>r. f r = k) xs = []"
  by (auto simp: filter_empty_conv)

lemma swipe_key_overwrite:
  "map swipe_key (map (\<lambda>x. if swipe_key x = k then x\<lparr>sw_action := a\<rparr> else x) xs) = map swipe_key xs"
  by (induction xs) (auto simp: swipe_key_def)

lemma upsert_swipe_unique:
  "upsert_swipe s r = Inr s' \<Longrightarrow> swipes_unique s \<Longrightarrow> swipes_unique s'"
  by (auto simp: upsert_swipe_def swipes_unique_def swipe_key_overwrite simp del: map_map
      split: if_splits)

lemma filter_overwrite_other:
  "k \<noteq> k' \<Longrightarrow>
   filter (\<lambda>x. swipe_key x = k') (map (\<lambda>x. if swipe_key x = k then x\<lparr>sw_action := a\<rparr> else x) xs)
     = filter (\<lambda>x. swipe_key x = k') xs"
  by (induction xs) (auto simp: swipe_key_def)

lemma filter_overwrite_same:
  "map sw_action (filter (\<lambda>x. swipe_key x = k) (map (\<lambda>x. if swipe_key x = k then x\<lparr>sw_action := a\<rparr> else x) xs))
     = map (\<lambda>x. a) (filter (\<lambda>x. swipe_key x = k) xs)"
  by (induction xs) (auto simp: swipe_key_def)

lemma upsert_swipe_recorded:
  assumes "upsert_swipe s r = Inr s'" and "swipes_unique s"
  shows "recorded s' i w = (if swipe_key r = (i, w) then [sw_action r] else recorded s i w)"
proof (cases "swipe_key r \<in> set (map swipe_key (investor_swipes s))")
  case True
  with assms(1) have s': "investor_swipes s' =
      map (\<lambda>x. if swipe_key x = swipe_key r then x\<lparr>sw_action := sw_action r\<rparr> else x) (investor_swipes s)"
    by (auto simp: upsert_swipe_def split: if_splits)
  show ?thesis
  proof (cases "swipe_key r = (i, w)")
    case k: True
    from single_row_for_key [OF assms(2) [unfolded swipes_unique_def] True]
    obtain x where "filter (\<lambda>y. swipe_key y = swipe_key r) (investor_swipes s) = [x]" by blast
    then show ?thesis
      using k filter_overwrite_same [of "swipe_key r" "sw_action r" "investor_swipes s"]
      by (simp add: recorded_def swipe_rows_def s')
  next
    case False
    then show ?thesis
      by (simp add: recorded_def swipe_rows_def s' filter_overwrite_other)
  qed
next
  case False
  with assms(1) have s': "investor_swipes s' = investor_swipes s @ [r]"
    by (auto simp: upsert_swipe_def split: if_splits)
  from False have "filter (\<lambda>x. swipe_key x = swipe_key r) (investor_swipes s) = []"
    by (rule no_row_for_key)
  then show ?thesis
    by (auto simp: recorded_def swipe_rows_def s')
qed

lemma delete_swipe_unique: "swipes_unique s \<Longrightarrow> swipes_unique (delete_swipe s i w)"
  by (simp add: swipes_unique_def delete_swipe_def distinct_map_filter)

lemma delete_swipe_recorded:
  "recorded (delete_swipe s i' w') i w = (if (i', w') = (i, w) then [] else recorded s i w)"
  by (auto simp: recorded_def swipe_rows_def delete_swipe_def filter_empty_conv
      intro!: arg_cong [where f = "map sw_action"] filter_cong)

lemma swipe_Inr_upsert:
  "swipe s i w a = Inr s' \<Longrightarrow>
   upsert_swipe s \<lparr> sw_investor_id = i, sw_startup_id = w, sw_action = a \<rparr> = Inr s'"
  by (auto simp: swipe_def lift_db_def split: if_splits option.splits sum.splits)

lemma apply_call_unique: "swipes_unique s \<Longrightarrow> swipes_unique (apply_call s c)"
proof (cases c)
  case (Swipe i w a)
  assume u: "swipes_unique s"
  show ?thesis
  proof (cases "swipe s i w a")
    case (Inl e)
    with Swipe u show ?thesis by (simp add: state_after_def)
  next
    case (Inr s')
    from upsert_swipe_unique [OF swipe_Inr_upsert [OF Inr] u] Swipe Inr
    show ?thesis by (simp add: state_after_def)
  qed
next
  case (Undo fd)
  assume "swipes_unique s"
  with Undo show ?thesis by simp
next
  case (RemoveMatch i w)
  assume "swipes_unique s"
  with RemoveMatch show ?thesis
    by (simp add: state_after_def removeMatch_def delete_swipe_unique)
qed

lemma apply_call_standing:
  assumes u: "swipes_unique s"
  shows "standing (apply_call s c) i w = decision_after s i w (standing s i w) c"
proof (cases c)
  case (Swipe i' w' a)
  show ?thesis
  proof (cases "swipe s i' w' a")
    case (Inl e)
    with Swipe show ?thesis by (simp add: state_after_def)
  next
    case (Inr s')
    from upsert_swipe_recorded [OF swipe_Inr_upsert [OF Inr] u, of i w] Swipe Inr
    show ?thesis by (auto simp: state_after_def standing_def swipe_key_def)
  qed
next
  case (Undo fd)
  then show ?thesis by simp
next
  case (RemoveMatch i' w')
  then show ?thesis
    by (auto simp: state_after_def removeMatch_def standing_def delete_swipe_recorded)
qed

lemma run_unique: "swipes_unique s \<Longrightarrow> swipes_unique (run s cs)"
  by (induction cs arbitrary: s) (auto simp: apply_call_unique)

lemma run_standing:
  "swipes_unique s \<Longrightarrow> standing (run s cs) i w = latest s i w (standing s i w) cs"
proof (induction cs arbitrary: s)
  case Nil
  then show ?case by simp
next
  case (Cons c cs)
  from Cons.prems have "swipes_unique (apply_call s c)" by (rule apply_call_unique)
  from Cons.IH [OF this] Cons.prems show ?case
    by (simp add: apply_call_standing)
qed

lemma unique_rows_le_one:
  "swipes_unique s \<Longrightarrow> length (swipe_rows s i w) \<le> 1"
proof (cases "(i, w) \<in> set (map swipe_key (investor_swipes s))")
  case True
  assume "swipes_unique s"
  from single_row_for_key [OF this [unfolded swipes_unique_def] True]
  show ?thesis by (auto simp: swipe_rows_def)
next
  case False
  from no_row_for_key [OF this] show ?thesis by (simp add: swipe_rows_def)
qed

text \<open>
  Claim C3, as stated: after a sequence of swipe and undo calls the row is absent when the
  most recent call was undo. After a right swipe followed by the page's undo the row is
  still there.
\<close>

theorem C3_counterexample:
  "recorded (run demo_store [Swipe ''inv1'' ''ws1'' ''interested'', Undo demo_feed_swiped])
       ''inv1'' ''ws1'' = [''interested'']
   \<and> \<not> unseen (run demo_store [Swipe ''inv1'' ''ws1'' ''interested'', Undo demo_feed_swiped])
       ''inv1'' ''ws1''"
  by (simp add: recorded_def unseen_def swipe_rows_def swipe_key_def state_after_def swipe_def
      upsert_swipe_def lift_db_def demo_store_def demo_feed_swiped_def)

text \<open>
  Claim C3, amended: from a store whose swipe table satisfies its uniqueness constraint,
  after any sequence of swipe, undo and remove-match calls a pair has at most one row, and
  the recorded action is the argument of the most recent swipe on the pair that succeeded,
  the row being absent exactly when no swipe on the pair has succeeded since the last
  successful remove-match (or at all); undo calls change nothing.
\<close>

theorem C3_at_most_one_row_latest_decision:
  assumes "swipes_unique s"
  shows "length (swipe_rows (run s cs) i w) \<le> 1
       \<and> map sw_action (swipe_rows (run s cs) i w)
           = (case latest s i w (standing s i w) cs of None \<Rightarrow> [] | Some a \<Rightarrow> [a])"
proof -
  have u: "swipes_unique (run s cs)" using assms by (rule run_unique)
  have le: "length (swipe_rows (run s cs) i w) \<le> 1" using u by (rule unique_rows_le_one)
  have st: "standing (run s cs) i w = latest s i w (standing s i w) cs"
    using assms by (rule run_standing)
  have "map sw_action (swipe_rows (run s cs) i w)
          = (case standing (run s cs) i w of None \<Rightarrow> [] | Some a \<Rightarrow> [a])"
    using le by (cases "swipe_rows (run s cs) i w") (auto simp: standing_def recorded_def)
  with le st show ?thesis by simp
qed

lemma demo_swipes_unique: "swipes_unique demo_store"
  by (simp add: swipes_unique_def demo_store_def)

lemma demo_latest:
  "latest demo_store ''inv1'' ''ws1'' (standing demo_store ''inv1'' ''ws1'')
     [Swipe ''inv1'' ''ws1'' ''interested'', Undo demo_feed_swiped,
      Swipe ''inv1'' ''ws1'' ''maybe'', Swipe ''inv1'' ''ws1'' ''passed'',
      Swipe ''u3'' ''ws1'' ''interested''] = Some ''passed''"
  by (simp add: standing_def recorded_def swipe_rows_def swipe_key_def state_after_def swipe_def
      upsert_swipe_def lift_db_def demo_store_def demo_feed_swiped_def)

theorem C3_witness:
  "swipes_unique demo_store
   \<and> map sw_action (swipe_rows (run demo_store
        [Swipe ''inv1'' ''ws1'' ''interested'', Undo demo_feed_swiped,
         Swipe ''inv1'' ''ws1'' ''maybe'', Swipe ''inv1'' ''ws1'' ''passed'',
         Swipe ''u3'' ''ws1'' ''interested'']) ''inv1'' ''ws1'') = [''passed'']"
  using C3_at_most_one_row_latest_decision [OF demo_swipes_unique,
      of "[Swipe ''inv1'' ''ws1'' ''interested'', Undo demo_feed_swiped,
           Swipe ''inv1'' ''ws1'' ''maybe'', Swipe ''inv1'' ''ws1'' ''passed'',
           Swipe ''u3'' ''ws1'' ''interested'']" "''inv1''" "''ws1''"]
    demo_swipes_unique
  by (simp only: demo_latest option.case simp_thms)

section \<open>Invite codes and memberships\<close>

lemma find_code_member:
  "find (\<lambda>w. st_invite_code w = Some code) (startups s) = Some w
   \<Longrightarrow> st_id w \<in> set (map st_id (startups s))"
  by (auto simp: find_Some_iff)

lemma insert_member_unique:
  "insert_member s m = Inr s' \<Longrightarrow> members_unique s \<Longrightarrow> members_unique s'"
  by (auto simp: insert_member_def members_unique_def split: if_splits)

lemma redeemInviteCode_unique:
  "redeemInviteCode s userId code role = Inr s' \<Longrightarrow> members_unique s \<Longrightarrow> members_unique s'"
  by (auto simp: redeemInviteCode_def lift_db_def
      split: option.splits if_splits sum.splits dest: insert_member_unique)

text \<open>
  Claim C4. A valid code redeemed twice by the same user, with a role the first call can
  accept, from a store whose membership table satisfies its uniqueness constraint: after
  the first call (whether it inserted the row or found the user already a member) the
  second call fails with \<^verbatim>\<open>ConflictError\<close>, leaves the store as it was, and the workspace
  holds exactly one membership row for the user.
\<close>

theorem C4_second_redemption_conflicts:
  assumes valid: "find (\<lambda>w. st_invite_code w = Some code) (startups s) = Some w"
    and uniq: "members_unique s"
    and role: "requested_role role \<in> set [''founder'', ''manager'', ''member'', ''investor'']"
    and flag: "requested_role role = ''investor'' \<longrightarrow> userId \<in> set (platform_investors s)"
    and s1: "s1 = state_after s (redeemInviteCode s userId code role)"
  shows "redeemInviteCode s1 userId code role = Inl ConflictError
       \<and> state_after s1 (redeemInviteCode s1 userId code role) = s1
       \<and> length (membership_rows s1 (st_id w) userId) = 1"
proof (cases "(st_id w, userId) \<in> set (map member_key (startup_members s))")
  case True
  with valid have "redeemInviteCode s userId code role = Inl ConflictError"
    by (simp add: redeemInviteCode_def)
  with s1 have eq: "s1 = s" by (simp add: state_after_def)
  from single_row_for_key [OF uniq [unfolded members_unique_def] True]
  have "length (membership_rows s (st_id w) userId) = 1"
    by (auto simp: membership_rows_def)
  with eq valid True show ?thesis
    by (simp add: redeemInviteCode_def state_after_def)
next
  case False
  let ?m = "\<lparr> m_startup_id = st_id w, m_user_id = userId, m_role = requested_role role \<rparr>"
  from valid have fk: "st_id w \<in> set (map st_id (startups s))" by (rule find_code_member)
  have ins: "insert_member s ?m = Inr (s\<lparr>startup_members := startup_members s @ [?m]\<rparr>)"
    using False role fk by (simp add: insert_member_def member_key_def)
  have "redeemInviteCode s userId code role
          = Inr (s\<lparr>startup_members := startup_members s @ [?m]\<rparr>)"
    using valid False flag ins by (auto simp: redeemInviteCode_def lift_db_def)
  with s1 have eq: "s1 = s\<lparr>startup_members := startup_members s @ [?m]\<rparr>"
    by (simp add: state_after_def)
  from no_row_for_key [OF False]
  have one: "length (membership_rows s1 (st_id w) userId) = 1"
    by (simp add: eq membership_rows_def member_key_def)
  have "redeemInviteCode s1 userId code role = Inl ConflictError"
    using valid by (simp add: eq redeemInviteCode_def member_key_def)
  with one show ?thesis by (simp add: state_after_def)
qed

lemma demo_code_valid:
  "find (\<lambda>w. st_invite_code w = Some ''ABC12345'') (startups demo_store)
     = Some \<lparr> st_id = ''ws1'', st_name = ''Acme'', st_founder_id = ''u1'',
              st_invite_code = Some ''ABC12345'' \<rparr>"
  by (simp add: demo_store_def)

lemma demo_members_unique: "members_unique demo_store"
  by (simp add: members_unique_def demo_store_def member_key_def)

theorem C4_witness:
  "redeemInviteCode (state_after demo_store (redeemInviteCode demo_store ''u9'' ''ABC12345'' None))
       ''u9'' ''ABC12345'' None = Inl ConflictError
   \<and> length (membership_rows
        (state_after demo_store (redeemInviteCode demo_store ''u9'' ''ABC12345'' None))
        ''ws1'' ''u9'') = 1"
  using C4_second_redemption_conflicts [OF demo_code_valid demo_members_unique,
      where role = None and userId = "''u9''"
        and ?s1.0 = "state_after demo_store (redeemInviteCode demo_store ''u9'' ''ABC12345'' None)"]
  by (simp add: requested_role_def)

text \<open>
  Claim C5. The \<^verbatim>\<open>startups\<close> table carries no uniqueness constraint on \<^verbatim>\<open>invite_code\<close>:
  in a store with unique codes, inserting a workspace with a code already in use
  succeeds, as does setting a workspace's code to one in use, and both leave two
  workspaces with the same code. The membership table, which declares its constraint,
  rejects a second row for a pair.
\<close>

theorem C5_duplicate_invite_code_accepted:
  "invite_codes_unique demo_store
   \<and> \<not> isl (insert_startup demo_store
        \<lparr> st_id = ''ws3'', st_name = ''Gamma'', st_founder_id = ''u5'',
          st_invite_code = Some ''ABC12345'' \<rparr>)
   \<and> \<not> invite_codes_unique (state_after demo_store (insert_startup demo_store
        \<lparr> st_id = ''ws3'', st_name = ''Gamma'', st_founder_id = ''u5'',
          st_invite_code = Some ''ABC12345'' \<rparr>))
   \<and> \<not> isl (update_invite_code demo_store ''ws2'' ''ABC12345'')
   \<and> \<not> invite_codes_unique
        (state_after demo_store (update_invite_code demo_store ''ws2'' ''ABC12345''))
   \<and> insert_member demo_store
        \<lparr> m_startup_id = ''ws1'', m_user_id = ''u1'', m_role = ''member'' \<rparr>
       = Inl UniqueViolation"
  by (simp add: invite_codes_unique_def insert_startup_def update_invite_code_def
      insert_member_def member_key_def state_after_def List.map_filter_def demo_store_def)

section \<open>The metrics snapshot\<close>

lemma expense_months_count:
  "length (expense_months s w)
     = card ((\<lambda>r. (d_year (l_date r), d_month (l_date r)))
               ` set (filter (\<lambda>r. l_startup_id r = w) (expenses s)))"
  by (simp add: expense_months_def length_remdups_card_conv)

lemma expense_months_empty:
  "(expense_months s w = []) = (filter (\<lambda>r. l_startup_id r = w) (expenses s) = [])"
  by (simp add: expense_months_def)

text \<open>
  Claim C6. For every store and workspace: the snapshot's total raised is the investment
  total; its balance is income plus total raised minus expenses; its monthly burn is 0
  without expense rows and otherwise the expense total divided by the number of calendar
  months (year and month) that occur in the expense rows; the runway is balance / burn
  when the burn is positive and no figure otherwise; the team size counts the members
  that are not investors. Hence every workspace with income 100 and 50, expenses 30 and
  20 in different calendar months, one investment of 500 and three members that are not
  investors has total raised 500, balance 600, burn 25, runway 24 and team size 3.
\<close>

theorem C6_snapshot:
  "totalRaised (computeSnapshot s w) = ledger_total (investments s) w
   \<and> balance (computeSnapshot s w)
       = ledger_total (income s) w + totalRaised (computeSnapshot s w)
           - ledger_total (expenses s) w
   \<and> monthlyBurn (computeSnapshot s w)
       = (if filter (\<lambda>r. l_startup_id r = w) (expenses s) = [] then 0
          else ledger_total (expenses s) w
                 / of_nat (card ((\<lambda>r. (d_year (l_date r), d_month (l_date r)))
                                  ` set (filter (\<lambda>r. l_startup_id r = w) (expenses s)))))
   \<and> runwayMonths (computeSnapshot s w)
       = (if monthlyBurn (computeSnapshot s w) > 0
          then Some (balance (computeSnapshot s w) / monthlyBurn (computeSnapshot s w))
          else None)
   \<and> teamSize (computeSnapshot s w)
       = length (filter (\<lambda>m. m_startup_id m = w \<and> m_role m \<noteq> ''investor'')
                  (startup_members s))
   \<and> (map l_amount (filter (\<lambda>r. l_startup_id r = w) (income s)) = [100, 50]
        \<and> filter (\<lambda>r. l_startup_id r = w) (expenses s) = [e1, e2]
        \<and> l_amount e1 = 30 \<and> l_amount e2 = 20
        \<and> (d_year (l_date e1), d_month (l_date e1)) \<noteq> (d_year (l_date e2), d_month (l_date e2))
        \<and> map l_amount (filter (\<lambda>r. l_startup_id r = w) (investments s)) = [500]
        \<and> length (filter (\<lambda>m. m_startup_id m = w \<and> m_role m \<noteq> ''investor'')
             (startup_members s)) = 3
      \<longrightarrow> computeSnapshot s w =
            \<lparr> totalRaised = 500, balance = 600, monthlyBurn = 25, runwayMonths = Some 24,
              teamSize = 3 \<rparr>)"
proof -
  have burn: "monthlyBurn (computeSnapshot s w)
       = (if filter (\<lambda>r. l_startup_id r = w) (expenses s) = [] then 0
          else ledger_total (expenses s) w
                 / of_nat (card ((\<lambda>r. (d_year (l_date r), d_month (l_date r)))
                                  ` set (filter (\<lambda>r. l_startup_id r = w) (expenses s)))))"
    by (simp add: computeSnapshot_def Let_def expense_months_empty expense_months_count)
  have rest: "totalRaised (computeSnapshot s w) = ledger_total (investments s) w
     \<and> balance (computeSnapshot s w)
         = ledger_total (income s) w + totalRaised (computeSnapshot s w)
             - ledger_total (expenses s) w
     \<and> runwayMonths (computeSnapshot s w)
         = (if monthlyBurn (computeSnapshot s w) > 0
            then Some (balance (computeSnapshot s w) / monthlyBurn (computeSnapshot s w))
            else None)
     \<and> teamSize (computeSnapshot s w)
         = length (filter (\<lambda>m. m_startup_id m = w \<and> m_role m \<noteq> ''investor'')
                    (startup_members s))"
    by (simp add: computeSnapshot_def Let_def)
  have example: "computeSnapshot s w =
            \<lparr> totalRaised = 500, balance = 600, monthlyBurn = 25, runwayMonths = Some 24,
              teamSize = 3 \<rparr>"
    if inc: "map l_amount (filter (\<lambda>r. l_startup_id r = w) (income s)) = [100, 50]"
      and ex: "filter (\<lambda>r. l_startup_id r = w) (expenses s) = [e1, e2]"
      and am: "l_amount e1 = 30" "l_amount e2 = 20"
      and mo: "(d_year (l_date e1), d_month (l_date e1)) \<noteq> (d_year (l_date e2), d_month (l_date e2))"
      and inv: "map l_amount (filter (\<lambda>r. l_startup_id r = w) (investments s)) = [500]"
      and team: "length (filter (\<lambda>m. m_startup_id m = w \<and> m_role m \<noteq> ''investor'')
             (startup_members s)) = 3"
  proof -
    have i: "ledger_total (income s) w = 150" using inc by (simp add: ledger_total_def)
    have e: "ledger_total (expenses s) w = 50" using ex am by (simp add: ledger_total_def)
    have r: "ledger_total (investments s) w = 500" using inv by (simp add: ledger_total_def)
    have m: "length (expense_months s w) = 2" "expense_months s w \<noteq> []"
      using ex mo by (auto simp: expense_months_def)
    show ?thesis
      using i e r m team by (simp add: computeSnapshot_def Let_def)
  qed
  have r1: "totalRaised (computeSnapshot s w) = ledger_total (investments s) w"
    and r2: "balance (computeSnapshot s w)
         = ledger_total (income s) w + totalRaised (computeSnapshot s w)
             - ledger_total (expenses s) w"
    and r3: "runwayMonths (computeSnapshot s w)
         = (if monthlyBurn (computeSnapshot s w) > 0
            then Some (balance (computeSnapshot s w) / monthlyBurn (computeSnapshot s w))
            else None)"
    and r4: "teamSize (computeSnapshot s w)
         = length (filter (\<lambda>m. m_startup_id m = w \<and> m_role m \<noteq> ''investor'')
                    (startup_members s))"
    using rest by blast+
  show ?thesis
    by (intro conjI impI; (elim conjE)?) (rule r1 r2 burn r3 r4 example; assumption)+
qed

lemma demo_years_expenses:
  "filter (\<lambda>r. l_startup_id r = ''ws1'') (expenses demo_store_years)
     = [\<lparr> l_startup_id = ''ws1'', l_amount = 30,
          l_date = \<lparr> d_year = 2025, d_month = 1, d_day = 20 \<rparr> \<rparr>,
        \<lparr> l_startup_id = ''ws1'', l_amount = 20,
          l_date = \<lparr> d_year = 2026, d_month = 1, d_day = 20 \<rparr> \<rparr>]"
  by (simp add: demo_store_years_def)

theorem C6_witness:
  "computeSnapshot demo_store_years ''ws1'' =
     \<lparr> totalRaised = 500, balance = 600, monthlyBurn = 25, runwayMonths = Some 24,
       teamSize = 3 \<rparr>
   \<and> filter (\<lambda>r. l_startup_id r = ''ws2'') (expenses demo_store) = []
   \<and> monthlyBurn (computeSnapshot demo_store ''ws2'') = 0
   \<and> runwayMonths (computeSnapshot demo_store ''ws2'') = None
   \<and> balance (computeSnapshot demo_store ''ws2'') = 7"
  using
    C6_snapshot [of demo_store_years "''ws1''"
      "\<lparr> l_startup_id = ''ws1'', l_amount = 30,
         l_date = \<lparr> d_year = 2025, d_month = 1, d_day = 20 \<rparr> \<rparr>"
      "\<lparr> l_startup_id = ''ws1'', l_amount = 20,
         l_date = \<lparr> d_year = 2026, d_month = 1, d_day = 20 \<rparr> \<rparr>"]
    C6_snapshot [of demo_store "''ws2''"]
    demo_years_expenses
  by (simp add: demo_store_years_def demo_store_def ledger_total_def)

end
